theory Spec2Isabelle
  imports Main "HOL-Library.Char_ord" "HOL-Library.List_Lexorder"
begin

section \<open>Strings as the handlers use them\<close>

text \<open>
  A JavaScript string is modelled as a \<^typ>\<open>string\<close>, one \<^typ>\<open>char\<close> per code unit
  (code units below 256). An optional query parameter is a \<^typ>\<open>string option\<close>:
  \<open>None\<close> is \<open>undefined\<close>.
\<close>

definition is_digit :: "char \<Rightarrow> bool" where
  "is_digit c = (c \<in> set ''0123456789'')"

text \<open>The white space that \<open>String.prototype.trim\<close> and \<open>parseInt\<close> skip.\<close>

definition is_space :: "char \<Rightarrow> bool" where
  "is_space c = (of_char c \<in> {9, 10, 11, 12, 13, 32, 160 :: nat})"

definition trim :: "string \<Rightarrow> string" where
  "trim s = rev (dropWhile is_space (rev (dropWhile is_space s)))"

definition startsWith :: "string \<Rightarrow> string \<Rightarrow> bool" where
  "startsWith s p = (take (length p) s = p)"

definition substring :: "string \<Rightarrow> nat \<Rightarrow> string" where
  "substring s n = drop n s"

section \<open>Phone normalisation\<close>

text \<open>
  \<open>formatWhatsAppNumber\<close>, the same in both source files: the empty string is returned as
  it is; otherwise \<open>phone.replace(/\D/g, '')\<close> keeps the digits, a leading \<open>0\<close> is
  replaced by \<open>234\<close>, and \<open>234\<close> is put in front of anything that does not start with it.
  The function has no \<open>throw\<close> and calls nothing that fails on a string.
\<close>

definition formatWhatsAppNumber :: "string \<Rightarrow> string" where
  "formatWhatsAppNumber phone =
     (if phone = [] then []
      else let cleaned = filter is_digit phone in
        if startsWith cleaned ''0'' then ''234'' @ substring cleaned 1
        else if \<not> startsWith cleaned ''234'' then ''234'' @ cleaned
        else cleaned)"

text \<open>
  The normalisation as the specification words it: strip the non-digits; a cleaned string
  that starts with \<open>0\<close> has that digit replaced by the country prefix; otherwise the prefix
  is prepended unless it is there already; empty input gives empty output.
\<close>

definition whatsapp_spec :: "string \<Rightarrow> string" where
  "whatsapp_spec p =
     (if p = [] then []
      else case filter is_digit p of
             [] \<Rightarrow> ''234''
           | d # ds \<Rightarrow>
               if d = CHR ''0'' then ''234'' @ ds
               else if take 3 (d # ds) = ''234'' then d # ds
               else ''234'' @ (d # ds))"

section \<open>Numbers\<close>

text \<open>
  The handlers only make numbers with \<open>parseInt\<close>, \<open>Math.min\<close>, \<open>Math.max\<close> and \<open>+\<close>,
  so a JavaScript number is an integer or \<open>NaN\<close>. (The rounding of integers beyond
  \<open>2^53\<close> is left out.)
\<close>

datatype number = NaN | Num int

definition isNaN :: "number \<Rightarrow> bool" where
  "isNaN x = (case x of NaN \<Rightarrow> True | Num _ \<Rightarrow> False)"

definition Math_max :: "number \<Rightarrow> number \<Rightarrow> number" where
  "Math_max a b = (case (a, b) of (Num x, Num y) \<Rightarrow> Num (max x y) | _ \<Rightarrow> NaN)"

definition Math_min :: "number \<Rightarrow> number \<Rightarrow> number" where
  "Math_min a b = (case (a, b) of (Num x, Num y) \<Rightarrow> Num (min x y) | _ \<Rightarrow> NaN)"

definition digit_value :: "char \<Rightarrow> int" where
  "digit_value c = of_char c - 48"

text \<open>
  \<open>parseInt(s, 10)\<close>: leading white space is skipped, then an optional sign, then the
  longest run of decimal digits; no digit there gives \<open>NaN\<close>, and whatever follows the
  digits is ignored.
\<close>

definition parseInt :: "string \<Rightarrow> number" where
  "parseInt s =
     (let t = dropWhile is_space s;
          neg = (t \<noteq> [] \<and> hd t = CHR ''-'');
          u = (if t \<noteq> [] \<and> (hd t = CHR ''-'' \<or> hd t = CHR ''+'') then tl t else t);
          ds = takeWhile is_digit u
      in if ds = [] then NaN
         else Num ((if neg then - 1 else 1) * foldl (\<lambda>a c. 10 * a + digit_value c) 0 ds))"

function digits_of :: "nat \<Rightarrow> string" where
  "digits_of n =
     (if n < 10 then [''0123456789'' ! n]
      else digits_of (n div 10) @ [''0123456789'' ! (n mod 10)])"
  by pat_completeness auto
termination
  by (relation "measure (\<lambda>n. n)") auto

text \<open>\<open>Number.prototype.toString\<close> on an integer.\<close>

definition toString :: "int \<Rightarrow> string" where
  "toString i = (if i < 0 then CHR ''-'' # digits_of (nat (- i)) else digits_of (nat i))"

section \<open>The store, as the handlers see it\<close>

text \<open>
  The eight label tables, in the order in which \<open>getLocationName\<close> and the locations
  handler go through them: \<open>location\<close>, \<open>mk_cat_info\<close>, \<open>md_cat_info\<close>, \<open>muas_cat_info\<close>,
  \<open>nrt_cat_info\<close>, \<open>field_cat_info\<close>, \<open>medical_cat_info\<close>, \<open>service_cat_info\<close>.
\<close>

datatype category_table =
  Location | Mk_cat | Md_cat | Muas_cat | Nrt_cat | Field_cat | Medical_cat | Service_cat

text \<open>
  What \<open>await pool.execute(...)\<close> gives: the promise is rejected (the message of the error
  is kept), or the first component of its value is an array of rows, or it is not an
  array.
\<close>

datatype 'row query_result = Rejected string | NotArray | Rows "'row list"

text \<open>A row of \<open>phone_record\<close>; a nullable column is an option.\<close>

record phone_record =
  record_id :: int
  rank :: "string option"
  f_name :: "string option"
  l_name :: "string option"
  phone :: "string option"
  phone1 :: "string option"
  phone2 :: "string option"
  location_id :: "int option"
  mk_cat_id :: "int option"
  md_cat_id :: "int option"
  muas_cat_id :: "int option"
  nrt_cat_id :: "int option"
  field_cat_id :: "int option"
  medical_cat_id :: "int option"
  service_cat_id :: "int option"
  province_id :: "int option"
  state_id :: "int option"

text \<open>
  A row of the join \<open>phone_record pr LEFT JOIN province_info p LEFT JOIN state_info s\<close>:
  the columns of \<open>pr\<close>, \<open>p.province\<close> and \<open>s.state_name\<close>.
\<close>

record contact_row =
  pr :: phone_record
  province :: "string option"
  state_name :: "string option"

text \<open>
  The conjuncts that the list handlers append to \<open>WHERE 1=1\<close>, each with the parameter
  bound to its placeholders:
  \<^item> \<open>(pr.f_name LIKE ? OR pr.l_name LIKE ? OR pr.phone LIKE ? OR pr.phone1 LIKE ? OR pr.phone2 LIKE ?)\<close>
  \<^item> \<open>p.province LIKE ?\<close>
  \<^item> \<open>s.state_name LIKE ?\<close>
  \<^item> \<open>pr.location_id = (SELECT location_id FROM location WHERE location LIKE ? LIMIT 1)\<close>
\<close>

datatype conjunct = SearchLike string | ProvinceLike string | StateLike string | LocationIs string

text \<open>The parameter of \<open>WHERE pr.record_id = ?\<close>: a number or a string.\<close>

datatype id_param = PNum int | PStr string

text \<open>
  The statements that the handlers send, one operation each:
  the page of joined rows (conjuncts, \<open>LIMIT\<close>, \<open>OFFSET\<close>), \<open>SELECT COUNT(*) as total\<close> with
  the same join (the rows' \<open>total\<close> column), the joined row of one \<open>record_id\<close>,
  \<open>SELECT <label> FROM <table> WHERE <id> = ?\<close> and \<open>SELECT <label> FROM <table>\<close> (the rows'
  label column; the label columns are taken to be \<open>NOT NULL\<close>).
\<close>

record driver =
  select_contacts :: "conjunct list \<Rightarrow> number \<Rightarrow> number \<Rightarrow> contact_row query_result"
  count_contacts :: "conjunct list \<Rightarrow> int query_result"
  select_contact :: "id_param \<Rightarrow> contact_row query_result"
  select_label :: "category_table \<Rightarrow> int \<Rightarrow> string query_result"
  select_column :: "category_table \<Rightarrow> string query_result"

text \<open>The pool runs a statement prepared (\<open>pool.execute\<close>) or as text (\<open>pool.query\<close>).\<close>

record pool =
  execute :: driver
  query :: driver

section \<open>Category resolution\<close>

text \<open>
  One block of \<open>getLocationName\<close>:
  \<^verbatim>\<open>if (id > 0) { const [rows] = await pool.execute(..., [id]);
     if (Array.isArray(rows) && rows.length > 0) { return rows[0].<label>; } }\<close>
  followed by the rest of the \<open>try\<close> body. \<open>Inl\<close> is the error thrown by the rejected
  promise, \<open>Inr\<close> the returned label; \<open>rest\<close> is the outcome of the blocks that follow.
\<close>

definition check_key ::
  "driver \<Rightarrow> category_table \<Rightarrow> int \<Rightarrow> string + string \<Rightarrow> string + string" where
  "check_key d t k rest =
     (if k > 0 then
        (case select_label d t k of
           Rejected e \<Rightarrow> Inl e
         | NotArray \<Rightarrow> rest
         | Rows rows \<Rightarrow> (case rows of [] \<Rightarrow> rest | r # _ \<Rightarrow> Inr r))
      else rest)"

text \<open>The body of the \<open>try\<close>: the eight blocks in the order of the source, then \<open>return 'Unknown'\<close>.\<close>

definition getLocationName_try ::
  "driver \<Rightarrow> int \<Rightarrow> int \<Rightarrow> int \<Rightarrow> int \<Rightarrow> int \<Rightarrow> int \<Rightarrow> int \<Rightarrow> int \<Rightarrow> string + string" where
  "getLocationName_try d locationId mkCatId mdCatId muasCatId nrtCatId fieldCatId
       medicalCatId serviceCatId =
     check_key d Location locationId
      (check_key d Mk_cat mkCatId
        (check_key d Md_cat mdCatId
          (check_key d Muas_cat muasCatId
            (check_key d Nrt_cat nrtCatId
              (check_key d Field_cat fieldCatId
                (check_key d Medical_cat medicalCatId
                  (check_key d Service_cat serviceCatId
                    (Inr ''Unknown''))))))))"

text \<open>\<open>getLocationName\<close>: the \<open>catch\<close> around the whole body logs and returns \<open>'Unknown'\<close>.\<close>

definition getLocationName ::
  "pool \<Rightarrow> int \<Rightarrow> int \<Rightarrow> int \<Rightarrow> int \<Rightarrow> int \<Rightarrow> int \<Rightarrow> int \<Rightarrow> int \<Rightarrow> string" where
  "getLocationName p locationId mkCatId mdCatId muasCatId nrtCatId fieldCatId
       medicalCatId serviceCatId =
     (case getLocationName_try (execute p) locationId mkCatId mdCatId muasCatId nrtCatId
             fieldCatId medicalCatId serviceCatId of
        Inl error \<Rightarrow> ''Unknown''
      | Inr label \<Rightarrow> label)"

text \<open>
  The same walk over a list of (table, key) pairs; \<open>getLocationName_try\<close> is this walk on
  its eight arguments, which the proofs below use.
\<close>

fun resolve_keys :: "driver \<Rightarrow> (category_table \<times> int) list \<Rightarrow> string + string" where
  "resolve_keys d [] = Inr ''Unknown''"
| "resolve_keys d ((t, k) # ks) = check_key d t k (resolve_keys d ks)"

text \<open>
  Resolution as section 4.2 of the specification words its result: the label of the first
  key, in the priority order, that is strictly positive and has a matching row.
\<close>

fun first_match :: "driver \<Rightarrow> (category_table \<times> int) list \<Rightarrow> string option" where
  "first_match d [] = None"
| "first_match d ((t, k) # ks) =
     (if k > 0 then
        (case select_label d t k of
           Rows (r # _) \<Rightarrow> Some r
         | _ \<Rightarrow> first_match d ks)
      else first_match d ks)"

text \<open>
  Resolution as the specification words its failure handling: a lookup error counts as
  "no match" for that key, and resolution goes on with the next key. In \<open>first_match\<close> a
  rejected lookup is already one of the cases that go on, so the specification's resolver
  is:
\<close>

definition resolve_spec :: "driver \<Rightarrow> (category_table \<times> int) list \<Rightarrow> string" where
  "resolve_spec d ks = (case first_match d ks of Some label \<Rightarrow> label | None \<Rightarrow> ''Unknown'')"

text \<open>
  A lookup that finds no row: the key is not positive, or the statement gives no row (an
  empty array, no array, or a rejection).
\<close>

definition no_row :: "driver \<Rightarrow> category_table \<times> int \<Rightarrow> bool" where
  "no_row d tk =
     (case tk of (t, k) \<Rightarrow>
        if k > 0 then (case select_label d t k of Rows (r # _) \<Rightarrow> False | _ \<Rightarrow> True) else True)"

text \<open>A lookup that is skipped or resolves without a row (it is not rejected).\<close>

definition misses :: "driver \<Rightarrow> category_table \<times> int \<Rightarrow> bool" where
  "misses d tk =
     (case tk of (t, k) \<Rightarrow>
        if k > 0 then (case select_label d t k of Rows [] \<Rightarrow> True | NotArray \<Rightarrow> True | _ \<Rightarrow> False)
        else True)"

text \<open>A lookup that is skipped or resolves (with or without a row).\<close>

definition resolves :: "driver \<Rightarrow> category_table \<times> int \<Rightarrow> bool" where
  "resolves d tk =
     (case tk of (t, k) \<Rightarrow>
        if k > 0 then (case select_label d t k of Rejected e \<Rightarrow> False | _ \<Rightarrow> True) else True)"

section \<open>Contact assembly\<close>

record Contact =
  c_id :: string
  c_name :: string
  c_location :: string
  c_phone :: string
  c_whatsapp :: string
  c_rank :: string
  c_province :: string
  c_state :: string
  c_category :: string

text \<open>\<open>x || 0\<close> on a nullable integer column and \<open>x || y\<close>, \<open>x || ''\<close> on nullable strings.\<close>

definition or_zero :: "int option \<Rightarrow> int" where
  "or_zero x = (case x of None \<Rightarrow> 0 | Some n \<Rightarrow> n)"

definition truthy :: "string option \<Rightarrow> bool" where
  "truthy x = (case x of None \<Rightarrow> False | Some s \<Rightarrow> s \<noteq> [])"

definition or_else :: "string option \<Rightarrow> string option \<Rightarrow> string option" where
  "or_else x y = (if truthy x then x else y)"

definition or_empty :: "string option \<Rightarrow> string" where
  "or_empty x = (case x of None \<Rightarrow> [] | Some s \<Rightarrow> s)"

text \<open>
  The callback that every contact handler maps over its rows (the same text in each of
  them): resolve the label, build the name and the primary phone, fill the contact.
\<close>

definition toContact :: "pool \<Rightarrow> contact_row \<Rightarrow> Contact" where
  "toContact p row =
     (let locationName = getLocationName p
            (or_zero (location_id (pr row))) (or_zero (mk_cat_id (pr row)))
            (or_zero (md_cat_id (pr row))) (or_zero (muas_cat_id (pr row)))
            (or_zero (nrt_cat_id (pr row))) (or_zero (field_cat_id (pr row)))
            (or_zero (medical_cat_id (pr row))) (or_zero (service_cat_id (pr row)));
          fullName = trim (or_empty (f_name (pr row)) @ '' '' @ or_empty (l_name (pr row)));
          primaryPhone =
            or_empty (or_else (phone (pr row)) (or_else (phone1 (pr row)) (phone2 (pr row))))
      in \<lparr> c_id = toString (record_id (pr row)),
           c_name = (if fullName = [] then ''Unknown'' else fullName),
           c_location = locationName,
           c_phone = primaryPhone,
           c_whatsapp = formatWhatsAppNumber primaryPhone,
           c_rank = or_empty (rank (pr row)),
           c_province = or_empty (province row),
           c_state = or_empty (state_name row),
           c_category = locationName \<rparr>)"

section \<open>Requests and responses\<close>

text \<open>\<open>ContactQueryParams\<close>: every parameter of the query string is optional.\<close>

record ContactQueryParams =
  q_search :: "string option"
  q_location :: "string option"
  q_province :: "string option"
  q_state :: "string option"
  q_category :: "string option"
  q_limit :: "string option"
  q_offset :: "string option"

record pagination =
  pg_total :: int
  pg_limit :: number
  pg_offset :: number
  pg_hasMore :: bool

text \<open>
  The JSON bodies: \<open>{success: true, data, pagination}\<close>, \<open>{success: true, data}\<close> with one
  contact or with the labels, \<open>{success: false, error, message}\<close> (\<open>message\<close> may be
  \<open>undefined\<close>), and \<open>{error}\<close> alone.
\<close>

datatype body =
    ContactsBody "Contact list" pagination
  | ContactBody Contact
  | LocationsBody "string list"
  | FailBody string "string option"
  | ErrorOnly string

record response =
  status :: nat
  body :: body

definition is_4xx :: "nat \<Rightarrow> bool" where
  "is_4xx s = (400 \<le> s \<and> s < 500)"

definition is_5xx :: "nat \<Rightarrow> bool" where
  "is_5xx s = (500 \<le> s \<and> s < 600)"

text \<open>\<open>`%${s}%`\<close>\<close>

definition wrap :: "string \<Rightarrow> string" where
  "wrap s = ''%'' @ s @ ''%''"

text \<open>
  The \<open>catch\<close> of the list handlers: status 500, and the error's message only when
  \<open>NODE_ENV\<close> is \<open>development\<close> (\<open>dev\<close>).
\<close>

definition internal_error :: "bool \<Rightarrow> string \<Rightarrow> response" where
  "internal_error dev msg =
     \<lparr> status = 500,
       body = FailBody ''Internal server error'' (if dev then Some msg else None) \<rparr>"

text \<open>The message of the \<open>TypeError\<close> that \<open>countRows[0].total\<close> throws on an empty array.\<close>

definition undefined_total :: string where
  "undefined_total = ''Cannot read properties of undefined (reading 'total')''"

text \<open>
  \<open>limit\<close> and \<open>offset\<close> in \<open>src/server.ts\<close> (both list handlers):
  \<^verbatim>\<open>limitParam ? Math.max(1, Math.min(1000, parseInt(limitParam, 10))) : 50\<close>
  \<^verbatim>\<open>offsetParam ? Math.max(0, parseInt(offsetParam, 10)) : 0\<close>
\<close>

definition effective_limit :: "string option \<Rightarrow> number" where
  "effective_limit limitParam =
     (if truthy limitParam
      then Math_max (Num 1) (Math_min (Num 1000) (parseInt (or_empty limitParam)))
      else Num 50)"

definition effective_offset :: "string option \<Rightarrow> number" where
  "effective_offset offsetParam =
     (if truthy offsetParam then Math_max (Num 0) (parseInt (or_empty offsetParam)) else Num 0)"

text \<open>
  The four \<open>if (x && x.trim())\<close> blocks that extend \<open>query\<close> and \<open>queryParams\<close> in
  \<open>src/server.ts\<close>, and the four that extend \<open>countQuery\<close> and \<open>countParams\<close>.
\<close>

definition add_filter ::
  "string option \<Rightarrow> (string \<Rightarrow> conjunct) \<Rightarrow> conjunct list \<Rightarrow> conjunct list" where
  "add_filter x mk q =
     (if truthy x \<and> trim (or_empty x) \<noteq> [] then q @ [mk (wrap (trim (or_empty x)))] else q)"

definition query_filters :: "ContactQueryParams \<Rightarrow> conjunct list" where
  "query_filters req =
     add_filter (q_location req) LocationIs
      (add_filter (q_state req) StateLike
        (add_filter (q_province req) ProvinceLike
          (add_filter (q_search req) SearchLike [])))"

definition count_filters :: "ContactQueryParams \<Rightarrow> conjunct list" where
  "count_filters req =
     add_filter (q_location req) LocationIs
      (add_filter (q_state req) StateLike
        (add_filter (q_province req) ProvinceLike
          (add_filter (q_search req) SearchLike [])))"

text \<open>
  The end of a list handler, after the page of rows is there: the count statement, then
  the response. \<open>run_count\<close> is the call that sends the count statement.
\<close>

definition count_and_respond ::
  "bool \<Rightarrow> int query_result \<Rightarrow> Contact list \<Rightarrow> number \<Rightarrow> number \<Rightarrow> response" where
  "count_and_respond dev countRows contacts lim off =
     (case countRows of
        Rejected e \<Rightarrow> internal_error dev e
      | Rows [] \<Rightarrow> internal_error dev undefined_total
      | _ \<Rightarrow>
          (let total = (case countRows of Rows (t # _) \<Rightarrow> t | _ \<Rightarrow> 0)
           in \<lparr> status = 200,
                body = ContactsBody contacts
                  \<lparr> pg_total = total, pg_limit = lim, pg_offset = off,
                    pg_hasMore =
                      (case off of NaN \<Rightarrow> False
                       | Num n \<Rightarrow> n + int (length contacts) < total) \<rparr> \<rparr>))"

text \<open>\<open>GET /api/contacts\<close> of \<open>src/server.ts\<close>.\<close>

definition contacts_handler :: "bool \<Rightarrow> pool \<Rightarrow> ContactQueryParams \<Rightarrow> response" where
  "contacts_handler dev p req =
     (let lim = effective_limit (q_limit req);
          off = effective_offset (q_offset req)
      in if isNaN lim \<or> isNaN off
         then \<lparr> status = 400, body = FailBody ''Invalid limit or offset parameters'' None \<rparr>
         else
           (case select_contacts (execute p) (query_filters req) lim off of
              Rejected e \<Rightarrow> internal_error dev e
            | NotArray \<Rightarrow> \<lparr> status = 500, body = ErrorOnly ''Invalid database response'' \<rparr>
            | Rows rows \<Rightarrow>
                if length rows = 0
                then \<lparr> status = 200,
                       body = ContactsBody []
                         \<lparr> pg_total = 0, pg_limit = lim, pg_offset = off, pg_hasMore = False \<rparr> \<rparr>
                else count_and_respond dev (count_contacts (execute p) (count_filters req))
                       (map (toContact p) rows) lim off))"

text \<open>
  \<open>GET /api/contacts-alt\<close> of \<open>src/server.ts\<close>: the page and the count go through
  \<open>pool.query\<close>; \<open>getLocationName\<close> still uses \<open>pool.execute\<close>.
\<close>

definition alt_query_filters :: "ContactQueryParams \<Rightarrow> conjunct list" where
  "alt_query_filters req =
     add_filter (q_location req) LocationIs
      (add_filter (q_state req) StateLike
        (add_filter (q_province req) ProvinceLike
          (add_filter (q_search req) SearchLike [])))"

definition alt_count_filters :: "ContactQueryParams \<Rightarrow> conjunct list" where
  "alt_count_filters req =
     add_filter (q_location req) LocationIs
      (add_filter (q_state req) StateLike
        (add_filter (q_province req) ProvinceLike
          (add_filter (q_search req) SearchLike [])))"

definition contacts_alt_handler :: "bool \<Rightarrow> pool \<Rightarrow> ContactQueryParams \<Rightarrow> response" where
  "contacts_alt_handler dev p req =
     (let lim = (if truthy (q_limit req)
                 then Math_max (Num 1) (Math_min (Num 1000) (parseInt (or_empty (q_limit req))))
                 else Num 50);
          off = (if truthy (q_offset req)
                 then Math_max (Num 0) (parseInt (or_empty (q_offset req)))
                 else Num 0)
      in if isNaN lim \<or> isNaN off
         then \<lparr> status = 400, body = FailBody ''Invalid limit or offset parameters'' None \<rparr>
         else
           (case select_contacts (query p) (alt_query_filters req) lim off of
              Rejected e \<Rightarrow> internal_error dev e
            | NotArray \<Rightarrow> \<lparr> status = 500, body = ErrorOnly ''Invalid database response'' \<rparr>
            | Rows rows \<Rightarrow>
                if length rows = 0
                then \<lparr> status = 200,
                       body = ContactsBody []
                         \<lparr> pg_total = 0, pg_limit = lim, pg_offset = off, pg_hasMore = False \<rparr> \<rparr>
                else count_and_respond dev (count_contacts (query p) (alt_count_filters req))
                       (map (toContact p) rows) lim off))"

section \<open>The earlier list handler\<close>

text \<open>
  \<open>parseInt(s)\<close> with no radix, as \<open>src/unnamed/part_000\<close> calls it: after the white space
  and the sign, a \<open>0x\<close> or \<open>0X\<close> prefix switches to base 16.
\<close>

definition hex_value :: "char \<Rightarrow> int option" where
  "hex_value c =
     (let n = (of_char c :: nat)
      in if 48 \<le> n \<and> n \<le> 57 then Some (int n - 48)
         else if 97 \<le> n \<and> n \<le> 102 then Some (int n - 87)
         else if 65 \<le> n \<and> n \<le> 70 then Some (int n - 55)
         else None)"

definition parseInt_default :: "string \<Rightarrow> number" where
  "parseInt_default s =
     (let t = dropWhile is_space s;
          neg = (t \<noteq> [] \<and> hd t = CHR ''-'');
          u = (if t \<noteq> [] \<and> (hd t = CHR ''-'' \<or> hd t = CHR ''+'') then tl t else t)
      in if startsWith u ''0x'' \<or> startsWith u ''0X''
         then (let hs = takeWhile (\<lambda>c. hex_value c \<noteq> None) (drop 2 u)
               in if hs = [] then NaN
                  else Num ((if neg then - 1 else 1)
                            * foldl (\<lambda>a c. 16 * a + (case hex_value c of None \<Rightarrow> 0 | Some v \<Rightarrow> v)) 0 hs))
         else parseInt s)"

text \<open>\<open>const { ..., limit = '50', offset = '0' } = req.query\<close>: the default replaces \<open>undefined\<close> only.\<close>

definition default_to :: "string option \<Rightarrow> string \<Rightarrow> string" where
  "default_to x d = (case x of None \<Rightarrow> d | Some s \<Rightarrow> s)"

text \<open>
  The three \<open>if (x)\<close> blocks of \<open>src/unnamed/part_000\<close>: no \<open>trim\<close>, and no block for
  \<open>location\<close>.
\<close>

definition add_filter_untrimmed ::
  "string option \<Rightarrow> (string \<Rightarrow> conjunct) \<Rightarrow> conjunct list \<Rightarrow> conjunct list" where
  "add_filter_untrimmed x mk q = (if truthy x then q @ [mk (wrap (or_empty x))] else q)"

definition part000_query_filters :: "ContactQueryParams \<Rightarrow> conjunct list" where
  "part000_query_filters req =
     add_filter_untrimmed (q_state req) StateLike
      (add_filter_untrimmed (q_province req) ProvinceLike
        (add_filter_untrimmed (q_search req) SearchLike []))"

definition part000_count_filters :: "ContactQueryParams \<Rightarrow> conjunct list" where
  "part000_count_filters req =
     add_filter_untrimmed (q_state req) StateLike
      (add_filter_untrimmed (q_province req) ProvinceLike
        (add_filter_untrimmed (q_search req) SearchLike []))"

text \<open>
  \<open>GET /api/contacts\<close> of \<open>src/unnamed/part_000\<close>: \<open>LIMIT ? OFFSET ?\<close> are bound to
  \<open>parseInt(limit)\<close> and \<open>parseInt(offset)\<close>, and there is no return on an empty page.
\<close>

definition part000_contacts_handler :: "bool \<Rightarrow> pool \<Rightarrow> ContactQueryParams \<Rightarrow> response" where
  "part000_contacts_handler dev p req =
     (let lim = parseInt_default (default_to (q_limit req) ''50'');
          off = parseInt_default (default_to (q_offset req) ''0'')
      in case select_contacts (execute p) (part000_query_filters req) lim off of
           Rejected e \<Rightarrow> internal_error dev e
         | NotArray \<Rightarrow> \<lparr> status = 500, body = ErrorOnly ''Invalid database response'' \<rparr>
         | Rows rows \<Rightarrow>
             count_and_respond dev (count_contacts (execute p) (part000_count_filters req))
               (map (toContact p) rows) lim off)"

section \<open>One contact\<close>

text \<open>\<open>GET /api/contacts/:id\<close> of \<open>src/server.ts\<close>: the id is parsed and checked first.\<close>

definition contact_handler :: "pool \<Rightarrow> string \<Rightarrow> response" where
  "contact_handler p ident =
     (case parseInt ident of
        NaN \<Rightarrow> \<lparr> status = 400, body = FailBody ''Invalid contact ID'' None \<rparr>
      | Num contactId \<Rightarrow>
          (case select_contact (execute p) (PNum contactId) of
             Rejected e \<Rightarrow> \<lparr> status = 500, body = FailBody ''Internal server error'' None \<rparr>
           | NotArray \<Rightarrow> \<lparr> status = 404, body = FailBody ''Contact not found'' None \<rparr>
           | Rows rows \<Rightarrow>
               (case rows of
                  [] \<Rightarrow> \<lparr> status = 404, body = FailBody ''Contact not found'' None \<rparr>
                | row # _ \<Rightarrow> \<lparr> status = 200, body = ContactBody (toContact p row) \<rparr>)))"

text \<open>
  \<open>GET /api/contacts/:id\<close> of \<open>src/unnamed/part_000\<close>: the string of the path goes to the
  statement as it is.
\<close>

definition part000_contact_handler :: "pool \<Rightarrow> string \<Rightarrow> response" where
  "part000_contact_handler p ident =
     (case select_contact (execute p) (PStr ident) of
        Rejected e \<Rightarrow> \<lparr> status = 500, body = FailBody ''Internal server error'' None \<rparr>
      | NotArray \<Rightarrow> \<lparr> status = 404, body = FailBody ''Contact not found'' None \<rparr>
      | Rows rows \<Rightarrow>
          (case rows of
             [] \<Rightarrow> \<lparr> status = 404, body = FailBody ''Contact not found'' None \<rparr>
           | row # _ \<Rightarrow> \<lparr> status = 200, body = ContactBody (toContact p row) \<rparr>))"

section \<open>The locations listing\<close>

definition tables :: "category_table list" where
  "tables = [Location, Mk_cat, Md_cat, Muas_cat, Nrt_cat, Field_cat, Medical_cat, Service_cat]"

text \<open>
  \<open>rows.forEach(row => { if (row[column] && !locations.includes(row[column]))
  locations.push(row[column]) })\<close>
\<close>

definition add_labels :: "string list \<Rightarrow> string list \<Rightarrow> string list" where
  "add_labels locations rows =
     foldl (\<lambda>locs v. if v \<noteq> [] \<and> v \<notin> set locs then locs @ [v] else locs)
       locations rows"

text \<open>
  The loop of \<open>src/server.ts\<close> over the tables, with its inner \<open>try\<close>: a rejected read is
  logged by \<open>console.warn\<close> (the second component collects the tables warned about) and
  the loop goes on.
\<close>

fun collect_locations ::
  "driver \<Rightarrow> category_table list \<Rightarrow> string list \<times> category_table list
     \<Rightarrow> string list \<times> category_table list" where
  "collect_locations d [] acc = acc"
| "collect_locations d (t # ts) (locations, warned) =
     (case select_column d t of
        Rejected e \<Rightarrow> collect_locations d ts (locations, warned @ [t])
      | NotArray \<Rightarrow> collect_locations d ts (locations, warned)
      | Rows rows \<Rightarrow> collect_locations d ts (add_labels locations rows, warned))"

text \<open>\<open>GET /api/locations\<close> of \<open>src/server.ts\<close>: the response and the tables warned about.\<close>

definition locations_handler :: "pool \<Rightarrow> response \<times> category_table list" where
  "locations_handler p =
     (case collect_locations (execute p) tables ([], []) of
        (locations, warned) \<Rightarrow>
          (\<lparr> status = 200, body = LocationsBody (sort locations) \<rparr>, warned))"

text \<open>
  The loop of \<open>src/unnamed/part_000\<close> has no inner \<open>try\<close>: a rejected read leaves the loop
  for the handler's \<open>catch\<close>.
\<close>

fun part000_collect_locations ::
  "driver \<Rightarrow> category_table list \<Rightarrow> string list \<Rightarrow> string + string list" where
  "part000_collect_locations d [] locations = Inr locations"
| "part000_collect_locations d (t # ts) locations =
     (case select_column d t of
        Rejected e \<Rightarrow> Inl e
      | NotArray \<Rightarrow> part000_collect_locations d ts locations
      | Rows rows \<Rightarrow> part000_collect_locations d ts (add_labels locations rows))"

definition part000_locations_handler :: "pool \<Rightarrow> response" where
  "part000_locations_handler p =
     (case part000_collect_locations (execute p) tables [] of
        Inl error \<Rightarrow> \<lparr> status = 500, body = FailBody ''Internal server error'' None \<rparr>
      | Inr locations \<Rightarrow> \<lparr> status = 200, body = LocationsBody (sort locations) \<rparr>)"

section \<open>A store to run the statements on\<close>

text \<open>
  The content of the store: the rows of \<open>phone_record\<close>, \<open>province_info\<close> and \<open>state_info\<close>
  in table order, and the (id, label) rows of each label table, \<open>None\<close> for a table that
  the schema does not have (every statement that reads it is rejected). Two things are
  the engine's own and stay parameters: \<open>like pattern value\<close>, the \<open>LIKE\<close> of the
  columns' collation, and \<open>id_of_string\<close>, the integer that a string parameter compares
  equal to, if any.
\<close>

record database =
  phone_records :: "phone_record list"
  province_info :: "(int \<times> string) list"
  state_info :: "(int \<times> string) list"
  label_rows :: "category_table \<Rightarrow> (int \<times> string) list option"
  like :: "string \<Rightarrow> string \<Rightarrow> bool"
  id_of_string :: "string \<Rightarrow> int option"

definition lookup_name :: "(int \<times> string) list \<Rightarrow> int option \<Rightarrow> string option" where
  "lookup_name tbl k = (case k of None \<Rightarrow> None | Some i \<Rightarrow> map_of tbl i)"

text \<open>The two \<open>LEFT JOIN\<close>s (the ids of \<open>province_info\<close> and \<open>state_info\<close> are keys).\<close>

definition joined :: "database \<Rightarrow> contact_row list" where
  "joined db =
     map (\<lambda>r. \<lparr> pr = r,
                province = lookup_name (province_info db) (province_id r),
                state_name = lookup_name (state_info db) (state_id r) \<rparr>)
       (phone_records db)"

text \<open>\<open>column LIKE ?\<close> in a \<open>WHERE\<close>: a \<open>NULL\<close> column does not pass.\<close>

definition likes :: "database \<Rightarrow> string \<Rightarrow> string option \<Rightarrow> bool" where
  "likes db pat v = (case v of None \<Rightarrow> False | Some s \<Rightarrow> like db pat s)"

text \<open>\<open>(SELECT location_id FROM location WHERE location LIKE ? LIMIT 1)\<close>: \<open>NULL\<close> without a match.\<close>

definition location_subquery :: "database \<Rightarrow> string \<Rightarrow> int option" where
  "location_subquery db pat =
     (case label_rows db Location of
        None \<Rightarrow> None
      | Some rs \<Rightarrow> map_option fst (find (\<lambda>r. like db pat (snd r)) rs))"

fun satisfies :: "database \<Rightarrow> contact_row \<Rightarrow> conjunct \<Rightarrow> bool" where
  "satisfies db row (SearchLike pat) =
     (likes db pat (f_name (pr row)) \<or> likes db pat (l_name (pr row))
      \<or> likes db pat (phone (pr row)) \<or> likes db pat (phone1 (pr row))
      \<or> likes db pat (phone2 (pr row)))"
| "satisfies db row (ProvinceLike pat) = likes db pat (province row)"
| "satisfies db row (StateLike pat) = likes db pat (state_name row)"
| "satisfies db row (LocationIs pat) =
     (case location_subquery db pat of
        None \<Rightarrow> False
      | Some i \<Rightarrow> location_id (pr row) = Some i)"

text \<open>The rows of the join that pass every conjunct, in table order.\<close>

definition matching :: "database \<Rightarrow> conjunct list \<Rightarrow> contact_row list" where
  "matching db cs = filter (\<lambda>row. list_all (satisfies db row) cs) (joined db)"

definition reads_location :: "conjunct list \<Rightarrow> bool" where
  "reads_location cs = list_ex (\<lambda>c. case c of LocationIs _ \<Rightarrow> True | _ \<Rightarrow> False) cs"

definition no_such_table :: string where
  "no_such_table = ''ER_NO_SUCH_TABLE''"

definition mysql :: "database \<Rightarrow> driver" where
  "mysql db =
     \<lparr> select_contacts = (\<lambda>cs lim off.
         if reads_location cs \<and> label_rows db Location = None then Rejected no_such_table
         else (case (lim, off) of
                 (Num l, Num n) \<Rightarrow>
                   if 0 \<le> l \<and> 0 \<le> n
                   then Rows (take (nat l) (drop (nat n) (matching db cs)))
                   else Rejected ''ER_PARSE_ERROR''
               | _ \<Rightarrow> Rejected ''ER_PARSE_ERROR'')),
       count_contacts = (\<lambda>cs.
         if reads_location cs \<and> label_rows db Location = None then Rejected no_such_table
         else Rows [int (length (matching db cs))]),
       select_contact = (\<lambda>i.
         case (case i of PNum n \<Rightarrow> Some n | PStr s \<Rightarrow> id_of_string db s) of
           None \<Rightarrow> Rows []
         | Some n \<Rightarrow> Rows (filter (\<lambda>row. record_id (pr row) = n) (joined db))),
       select_label = (\<lambda>t k.
         case label_rows db t of
           None \<Rightarrow> Rejected no_such_table
         | Some rs \<Rightarrow> Rows (map snd (filter (\<lambda>r. fst r = k) rs))),
       select_column = (\<lambda>t.
         case label_rows db t of
           None \<Rightarrow> Rejected no_such_table
         | Some rs \<Rightarrow> Rows (map snd rs)) \<rparr>"

text \<open>A pool on a store: \<open>execute\<close> and \<open>query\<close> run the same statement on the same rows.\<close>

definition mysql_pool :: "database \<Rightarrow> pool" where
  "mysql_pool db = \<lparr> execute = mysql db, query = mysql db \<rparr>"

text \<open>A store that cannot be reached: every statement is rejected.\<close>

definition unreachable :: driver where
  "unreachable =
     \<lparr> select_contacts = (\<lambda>cs lim off. Rejected ''connect ECONNREFUSED''),
       count_contacts = (\<lambda>cs. Rejected ''connect ECONNREFUSED''),
       select_contact = (\<lambda>i. Rejected ''connect ECONNREFUSED''),
       select_label = (\<lambda>t k. Rejected ''connect ECONNREFUSED''),
       select_column = (\<lambda>t. Rejected ''connect ECONNREFUSED'') \<rparr>"

definition unreachable_pool :: pool where
  "unreachable_pool = \<lparr> execute = unreachable, query = unreachable \<rparr>"

subsection \<open>A small store\<close>

text \<open>\<open>LIKE\<close> with the wild cards \<open>%\<close> and \<open>_\<close>, comparing the other characters exactly.\<close>

fun like_match :: "string \<Rightarrow> string \<Rightarrow> bool" where
  "like_match [] s = (s = [])"
| "like_match (c # pat) [] = (if c = CHR ''%'' then like_match pat [] else False)"
| "like_match (c # pat) (x # s) =
     (if c = CHR ''%'' then (if like_match pat (x # s) then True else like_match (c # pat) s)
      else if c = CHR ''_'' then like_match pat s
      else if c = x then like_match pat s else False)"

text \<open>
  The record of the specification's end-to-end scenario: John Doe, phone \<open>08011112222\<close>,
  \<open>location_id\<close> 3, province 1, state 2.
\<close>

definition john :: phone_record where
  "john =
     \<lparr> record_id = 7, rank = None, f_name = Some ''John'', l_name = Some ''Doe'',
       phone = Some ''08011112222'', phone1 = None, phone2 = None,
       location_id = Some 3, mk_cat_id = Some 0, md_cat_id = Some 0, muas_cat_id = Some 0,
       nrt_cat_id = Some 0, field_cat_id = Some 0, medical_cat_id = Some 0,
       service_cat_id = Some 0, province_id = Some 1, state_id = Some 2 \<rparr>"

definition sample_labels :: "category_table \<Rightarrow> (int \<times> string) list option" where
  "sample_labels t =
     (case t of
        Location \<Rightarrow> Some [(3, ''Lagos Hub'')]
      | Mk_cat \<Rightarrow> Some [(5, ''Makkah Office'')]
      | Md_cat \<Rightarrow> Some [(7, ''Madinah Office'')]
      | _ \<Rightarrow> Some [])"

definition sample_db :: database where
  "sample_db =
     \<lparr> phone_records = [john],
       province_info = [(1, ''Lagos'')],
       state_info = [(2, ''Lagos State'')],
       label_rows = sample_labels,
       like = like_match,
       id_of_string = (\<lambda>s. case parseInt s of NaN \<Rightarrow> Some 0 | Num n \<Rightarrow> Some n) \<rparr>"

text \<open>The same store with an empty \<open>mk_cat_info\<close>, and with no \<open>location\<close> table.\<close>

definition empty_mk_db :: database where
  "empty_mk_db = sample_db \<lparr> label_rows := sample_labels (Mk_cat := Some []) \<rparr>"

definition no_location_db :: database where
  "no_location_db = sample_db \<lparr> label_rows := sample_labels (Location := None) \<rparr>"

text \<open>The same store without the \<open>md_cat_info\<close> table.\<close>

definition no_md_db :: database where
  "no_md_db = sample_db \<lparr> label_rows := sample_labels (Md_cat := None) \<rparr>"

text \<open>A request with no query parameter.\<close>

definition no_params :: ContactQueryParams where
  "no_params =
     \<lparr> q_search = None, q_location = None, q_province = None, q_state = None,
       q_category = None, q_limit = None, q_offset = None \<rparr>"

text \<open>The contact that the handlers assemble from the row of \<open>john\<close>.\<close>

definition john_contact :: Contact where
  "john_contact =
     \<lparr> c_id = ''7'', c_name = ''John Doe'', c_location = ''Lagos Hub'',
       c_phone = ''08011112222'', c_whatsapp = ''2348011112222'', c_rank = [],
       c_province = ''Lagos'', c_state = ''Lagos State'', c_category = ''Lagos Hub'' \<rparr>"

text \<open>The eight arguments of \<open>getLocationName\<close> with their tables, in the order of the source.\<close>

definition key_list ::
  "int \<Rightarrow> int \<Rightarrow> int \<Rightarrow> int \<Rightarrow> int \<Rightarrow> int \<Rightarrow> int \<Rightarrow> int \<Rightarrow> (category_table \<times> int) list" where
  "key_list locationId mkCatId mdCatId muasCatId nrtCatId fieldCatId medicalCatId serviceCatId =
     [(Location, locationId), (Mk_cat, mkCatId), (Md_cat, mdCatId), (Muas_cat, muasCatId),
      (Nrt_cat, nrtCatId), (Field_cat, fieldCatId), (Medical_cat, medicalCatId),
      (Service_cat, serviceCatId)]"

section \<open>Properties of phone normalisation\<close>

lemma formatWhatsAppNumber_refines: "formatWhatsAppNumber p = whatsapp_spec p"
  by (cases "filter is_digit p")
     (simp_all add: formatWhatsAppNumber_def whatsapp_spec_def startsWith_def substring_def
        Let_def eval_nat_numeral)

lemma is_digit_234: "\<forall>c \<in> set ''234''. is_digit c"
  by (simp add: is_digit_def)

lemma formatWhatsAppNumber_digits: "\<forall>c \<in> set (formatWhatsAppNumber p). is_digit c"
  using is_digit_234
  by (auto simp: formatWhatsAppNumber_def startsWith_def substring_def Let_def
           dest: in_set_dropD)

lemma formatWhatsAppNumber_prefix:
  "p \<noteq> [] \<Longrightarrow> take 3 (formatWhatsAppNumber p) = ''234''"
  by (simp add: formatWhatsAppNumber_def startsWith_def substring_def Let_def eval_nat_numeral)

text \<open>
  Claim C4. For every phone string, \<open>formatWhatsAppNumber\<close> strips the non-digits and then
  replaces a leading \<open>0\<close> by \<open>234\<close>, or prepends \<open>234\<close> unless the cleaned string starts with
  it already; the empty string maps to the empty string; the result of a non-empty input
  holds digits only and starts with \<open>234\<close>; the three sample numbers all normalise to
  \<open>2348031234567\<close>. The function is total: it is defined by cases that all return a string.
\<close>

theorem formatWhatsAppNumber_correct:
  "formatWhatsAppNumber p = whatsapp_spec p
   \<and> formatWhatsAppNumber [] = []
   \<and> (p \<noteq> [] \<longrightarrow>
        (\<forall>c \<in> set (formatWhatsAppNumber p). is_digit c)
        \<and> take 3 (formatWhatsAppNumber p) = ''234'')
   \<and> formatWhatsAppNumber ''08031234567'' = ''2348031234567''
   \<and> formatWhatsAppNumber ''2348031234567'' = ''2348031234567''
   \<and> formatWhatsAppNumber ''8031234567'' = ''2348031234567''"
proof -
  have "formatWhatsAppNumber [] = []"
    by (simp add: formatWhatsAppNumber_def)
  moreover have "formatWhatsAppNumber ''08031234567'' = ''2348031234567''"
    by (simp add: formatWhatsAppNumber_def startsWith_def substring_def is_digit_def)
  moreover have "formatWhatsAppNumber ''2348031234567'' = ''2348031234567''"
    by (simp add: formatWhatsAppNumber_def startsWith_def substring_def is_digit_def)
  moreover have "formatWhatsAppNumber ''8031234567'' = ''2348031234567''"
    by (simp add: formatWhatsAppNumber_def startsWith_def substring_def is_digit_def)
  ultimately show ?thesis
    using formatWhatsAppNumber_refines [of p] formatWhatsAppNumber_digits [of p]
      formatWhatsAppNumber_prefix [of p]
    by simp
qed

theorem formatWhatsAppNumber_correct_witness:
  "''+234 (803) 123-4567'' \<noteq> []
   \<and> formatWhatsAppNumber ''+234 (803) 123-4567'' = ''2348031234567''
   \<and> list_all is_digit (formatWhatsAppNumber ''+234 (803) 123-4567'')
   \<and> take 3 (formatWhatsAppNumber ''+234 (803) 123-4567'') = ''234''"
proof -
  have v: "formatWhatsAppNumber ''+234 (803) 123-4567'' = ''2348031234567''"
    by (simp add: formatWhatsAppNumber_def startsWith_def substring_def is_digit_def)
  have ne: "''+234 (803) 123-4567'' \<noteq> []" by simp
  from formatWhatsAppNumber_correct [of "''+234 (803) 123-4567''"] ne
  have "(\<forall>c \<in> set (formatWhatsAppNumber ''+234 (803) 123-4567''). is_digit c)
        \<and> take 3 (formatWhatsAppNumber ''+234 (803) 123-4567'') = ''234''"
    by blast
  with v ne show ?thesis by (simp only: list_all_iff) blast
qed

section \<open>Properties of category resolution\<close>

lemma getLocationName_try_walk:
  "getLocationName_try d l mk md mu n f me s = resolve_keys d (key_list l mk md mu n f me s)"
  by (simp add: getLocationName_try_def key_list_def)

lemma resolve_keys_no_row:
  "list_all (no_row d) ks \<Longrightarrow> resolve_keys d ks = Inr ''Unknown'' \<or> (\<exists>e. resolve_keys d ks = Inl e)"
proof (induction ks)
  case Nil
  then show ?case by simp
next
  case (Cons tk ks)
  obtain t k where tk: "tk = (t, k)" by (cases tk)
  from Cons.prems have nr: "no_row d (t, k)" and rest: "list_all (no_row d) ks"
    by (simp_all add: tk)
  from Cons.IH [OF rest] nr show ?case
    by (auto simp: tk check_key_def no_row_def split: query_result.splits list.splits if_splits)
qed

lemma resolve_keys_first_match:
  "list_all (resolves d) ks \<Longrightarrow> resolve_keys d ks = Inr (resolve_spec d ks)"
proof (induction ks)
  case Nil
  then show ?case by (simp add: resolve_spec_def)
next
  case (Cons tk ks)
  obtain t k where tk: "tk = (t, k)" by (cases tk)
  from Cons.prems have r: "resolves d (t, k)" and rest: "list_all (resolves d) ks"
    by (simp_all add: tk)
  from Cons.IH [OF rest] r show ?case
    by (auto simp: tk check_key_def resolves_def resolve_spec_def
             split: query_result.splits list.splits)
qed

lemma resolve_keys_rejected:
  "list_all (misses d) pre \<Longrightarrow> 0 < k \<Longrightarrow> select_label d t k = Rejected e \<Longrightarrow>
   resolve_keys d (pre @ (t, k) # post) = Inl e"
proof (induction pre)
  case Nil
  then show ?case by (simp add: check_key_def)
next
  case (Cons a pre)
  obtain t' k' where a: "a = (t', k')" by (cases a)
  from Cons.prems have m: "misses d (t', k')" and rest: "list_all (misses d) pre"
    by (simp_all add: a)
  from Cons.IH [OF rest Cons.prems(2) Cons.prems(3)] m show ?case
    by (auto simp: a check_key_def misses_def split: query_result.splits list.splits if_splits)
qed

lemma resolve_keys_found:
  "list_all (misses d) pre \<Longrightarrow> 0 < k \<Longrightarrow> select_label d t k = Rows (label # others) \<Longrightarrow>
   resolve_keys d (pre @ (t, k) # post) = Inr label"
proof (induction pre)
  case Nil
  then show ?case by (simp add: check_key_def)
next
  case (Cons a pre)
  obtain t' k' where a: "a = (t', k')" by (cases a)
  from Cons.prems have m: "misses d (t', k')" and rest: "list_all (misses d) pre"
    by (simp_all add: a)
  from Cons.IH [OF rest Cons.prems(2) Cons.prems(3)] m show ?case
    by (auto simp: a check_key_def misses_def split: query_result.splits list.splits if_splits)
qed

lemma nonpositive_no_row: "k \<le> 0 \<Longrightarrow> no_row d (t, k)"
  by (simp add: no_row_def)

lemmas sample_simps = mysql_pool_def mysql_def sample_db_def sample_labels_def
  empty_mk_db_def no_location_db_def no_md_db_def no_such_table_def

lemmas resolver_simps = getLocationName_def getLocationName_try_def check_key_def

text \<open>
  Claim C2, amended. If none of the eight foreign keys is strictly positive,
  \<open>getLocationName\<close> returns \<open>Unknown\<close>; and if no strictly positive key has a row in its
  table, it returns \<open>Unknown\<close>. (A first positive key without a row is not enough: the
  later keys are still looked up.)
\<close>

theorem getLocationName_unknown:
  "(l \<le> 0 \<and> mk \<le> 0 \<and> md \<le> 0 \<and> mu \<le> 0 \<and> n \<le> 0 \<and> f \<le> 0 \<and> me \<le> 0 \<and> s \<le> 0
      \<longrightarrow> getLocationName p l mk md mu n f me s = ''Unknown'')
   \<and> (list_all (no_row (execute p)) (key_list l mk md mu n f me s)
      \<longrightarrow> getLocationName p l mk md mu n f me s = ''Unknown'')"
proof -
  have second: "getLocationName p l mk md mu n f me s = ''Unknown''"
    if "list_all (no_row (execute p)) (key_list l mk md mu n f me s)"
    using resolve_keys_no_row [OF that]
    by (auto simp: getLocationName_def getLocationName_try_walk)
  have "list_all (no_row (execute p)) (key_list l mk md mu n f me s)"
    if "l \<le> 0 \<and> mk \<le> 0 \<and> md \<le> 0 \<and> mu \<le> 0 \<and> n \<le> 0 \<and> f \<le> 0 \<and> me \<le> 0 \<and> s \<le> 0"
    using that by (simp add: key_list_def nonpositive_no_row)
  with second show ?thesis by blast
qed

theorem getLocationName_unknown_witness:
  "getLocationName (mysql_pool sample_db) 0 0 0 0 0 0 0 0 = ''Unknown''
   \<and> list_all (no_row (execute (mysql_pool sample_db))) (key_list 9 0 0 4 0 0 0 0)
   \<and> getLocationName (mysql_pool sample_db) 9 0 0 4 0 0 0 0 = ''Unknown''"
proof -
  have zero: "getLocationName (mysql_pool sample_db) 0 0 0 0 0 0 0 0 = ''Unknown''"
    using getLocationName_unknown [of 0 0 0 0 0 0 0 0 "mysql_pool sample_db"] by simp
  have rows: "list_all (no_row (execute (mysql_pool sample_db))) (key_list 9 0 0 4 0 0 0 0)"
    by (simp add: no_row_def key_list_def sample_simps)
  with getLocationName_unknown [of 9 0 0 4 0 0 0 0 "mysql_pool sample_db"]
  have "getLocationName (mysql_pool sample_db) 9 0 0 4 0 0 0 0 = ''Unknown''" by blast
  with zero rows show ?thesis by blast
qed

text \<open>
  Claim C2 as stated fails: with \<open>location_id = 9\<close>, which has no row in \<open>location\<close>, and
  \<open>mk_cat_id = 5\<close>, which has one, the first positive key has no row and the result is
  the label of \<open>mk_cat_info\<close>, not \<open>Unknown\<close>.
\<close>

theorem getLocationName_first_missing_counterexample:
  "(0::int) < 9
   \<and> select_label (execute (mysql_pool sample_db)) Location 9 = Rows []
   \<and> getLocationName (mysql_pool sample_db) 9 5 0 0 0 0 0 0 = ''Makkah Office''
   \<and> getLocationName (mysql_pool sample_db) 9 5 0 0 0 0 0 0 \<noteq> ''Unknown''"
  by (simp add: resolver_simps sample_simps)

text \<open>
  Claim C3, amended. The keys are checked in the order location, mk, md, muas, nrt, field,
  medical, service. When the lookups of the keys before it return no row (none of them is
  rejected), the first key that is strictly positive and has a row gives the result, and
  the keys after it are not looked at; when no lookup is rejected at all, the result is
  the label of the first such key, or \<open>Unknown\<close>. Given \<open>location_id = 0\<close>, \<open>mk = 5\<close>,
  \<open>md = 7\<close>, the result is the label of \<open>mk_cat_info\<close> for id 5 whenever that table has
  a row for id 5, whatever the other tables hold.
\<close>

theorem getLocationName_first_match:
  "(key_list l mk md mu n f me s = pre @ (t, k) # post
      \<and> list_all (misses (execute p)) pre \<and> 0 < k
      \<and> select_label (execute p) t k = Rows (label # others)
      \<longrightarrow> getLocationName p l mk md mu n f me s = label)
   \<and> (list_all (resolves (execute p)) (key_list l mk md mu n f me s)
      \<longrightarrow> getLocationName p l mk md mu n f me s
            = resolve_spec (execute p) (key_list l mk md mu n f me s))
   \<and> (select_label (execute p) Mk_cat 5 = Rows (label # others)
      \<longrightarrow> getLocationName p 0 5 7 mu n f me s = label)"
proof -
  have a: "getLocationName p l mk md mu n f me s = label"
    if "key_list l mk md mu n f me s = pre @ (t, k) # post"
      and "list_all (misses (execute p)) pre" and "0 < k"
      and "select_label (execute p) t k = Rows (label # others)"
    using resolve_keys_found [OF that(2) that(3) that(4), of post] that(1)
    by (simp add: getLocationName_def getLocationName_try_walk)
  have b: "getLocationName p l mk md mu n f me s
             = resolve_spec (execute p) (key_list l mk md mu n f me s)"
    if "list_all (resolves (execute p)) (key_list l mk md mu n f me s)"
    using resolve_keys_first_match [OF that]
    by (simp add: getLocationName_def getLocationName_try_walk)
  have c: "getLocationName p 0 5 7 mu n f me s = label"
    if "select_label (execute p) Mk_cat 5 = Rows (label # others)"
    using that by (simp add: resolver_simps)
  from a b c show ?thesis by blast
qed

theorem getLocationName_first_match_witness:
  "key_list 0 5 7 0 0 0 0 0
     = [(Location, 0)] @ (Mk_cat, 5)
         # [(Md_cat, 7), (Muas_cat, 0), (Nrt_cat, 0), (Field_cat, 0), (Medical_cat, 0),
            (Service_cat, 0)]
   \<and> list_all (misses (execute (mysql_pool sample_db))) [(Location, 0)]
   \<and> select_label (execute (mysql_pool sample_db)) Mk_cat 5 = Rows (''Makkah Office'' # [])
   \<and> list_all (resolves (execute (mysql_pool sample_db))) (key_list 0 5 7 0 0 0 0 0)
   \<and> getLocationName (mysql_pool sample_db) 0 5 7 0 0 0 0 0 = ''Makkah Office''
   \<and> resolve_spec (execute (mysql_pool sample_db)) (key_list 0 5 7 0 0 0 0 0)
       = ''Makkah Office''"
proof -
  have k: "key_list 0 5 7 0 0 0 0 0
     = [(Location, 0)] @ (Mk_cat, 5)
         # [(Md_cat, 7), (Muas_cat, 0), (Nrt_cat, 0), (Field_cat, 0), (Medical_cat, 0),
            (Service_cat, 0)]"
    by (simp add: key_list_def)
  have m: "list_all (misses (execute (mysql_pool sample_db))) [(Location, 0)]"
    by (simp add: misses_def)
  have r: "select_label (execute (mysql_pool sample_db)) Mk_cat 5 = Rows (''Makkah Office'' # [])"
    by (simp add: sample_simps)
  have a: "list_all (resolves (execute (mysql_pool sample_db))) (key_list 0 5 7 0 0 0 0 0)"
    by (simp add: resolves_def key_list_def sample_simps)
  have pos: "(0::int) < 5" by simp
  note inst = getLocationName_first_match [of 0 5 7 0 0 0 0 0 "[(Location, 0)]" Mk_cat 5
      "[(Md_cat, 7), (Muas_cat, 0), (Nrt_cat, 0), (Field_cat, 0), (Medical_cat, 0),
        (Service_cat, 0)]" "mysql_pool sample_db" "''Makkah Office''" "[]"]
  from inst k m r pos
  have v: "getLocationName (mysql_pool sample_db) 0 5 7 0 0 0 0 0 = ''Makkah Office''"
    by blast
  from inst a
  have "getLocationName (mysql_pool sample_db) 0 5 7 0 0 0 0 0
          = resolve_spec (execute (mysql_pool sample_db)) (key_list 0 5 7 0 0 0 0 0)"
    by blast
  with v have "resolve_spec (execute (mysql_pool sample_db)) (key_list 0 5 7 0 0 0 0 0)
                 = ''Makkah Office''"
    by simp
  with k m r a v show ?thesis by blast
qed

text \<open>
  Claim C3 as stated fails on its example: with \<open>location_id = 0\<close>, \<open>mk = 5\<close>, \<open>md = 7\<close>
  and a \<open>mk_cat_info\<close> that has no row for id 5, the result is the label of \<open>md_cat_info\<close>
  for id 7. And a rejected lookup ends the resolution: without a \<open>location\<close> table,
  \<open>location_id = 3\<close> and \<open>mk = 5\<close> give \<open>Unknown\<close>, although \<open>mk\<close> is the first positive
  key with a row.
\<close>

theorem getLocationName_first_match_counterexample:
  "select_label (execute (mysql_pool empty_mk_db)) Mk_cat 5 = Rows []
   \<and> select_label (execute (mysql_pool empty_mk_db)) Md_cat 7 = Rows [''Madinah Office'']
   \<and> getLocationName (mysql_pool empty_mk_db) 0 5 7 0 0 0 0 0 = ''Madinah Office''
   \<and> first_match (execute (mysql_pool no_location_db)) (key_list 3 5 0 0 0 0 0 0)
       = Some ''Makkah Office''
   \<and> getLocationName (mysql_pool no_location_db) 3 5 0 0 0 0 0 0 = ''Unknown''"
  by (simp add: resolver_simps key_list_def sample_simps)

text \<open>
  Claim C8, amended. A lookup error raised while checking a foreign key is caught, and
  \<open>getLocationName\<close> returns \<open>Unknown\<close> at once, without checking the keys after it; no
  error reaches the caller: whatever the body of the \<open>try\<close> does, a label is returned.
\<close>

theorem getLocationName_absorbs_errors:
  "(getLocationName_try (execute p) l mk md mu n f me s = Inl e
      \<longrightarrow> getLocationName p l mk md mu n f me s = ''Unknown'')
   \<and> (getLocationName_try (execute p) l mk md mu n f me s = Inr label
      \<longrightarrow> getLocationName p l mk md mu n f me s = label)
   \<and> (key_list l mk md mu n f me s = pre @ (t, k) # post
      \<and> list_all (misses (execute p)) pre \<and> 0 < k
      \<and> select_label (execute p) t k = Rejected e'
      \<longrightarrow> getLocationName_try (execute p) l mk md mu n f me s = Inl e'
          \<and> getLocationName p l mk md mu n f me s = ''Unknown'')"
proof -
  have "getLocationName_try (execute p) l mk md mu n f me s = Inl e'"
    if "key_list l mk md mu n f me s = pre @ (t, k) # post"
      and "list_all (misses (execute p)) pre" and "0 < k"
      and "select_label (execute p) t k = Rejected e'"
    using resolve_keys_rejected [OF that(2) that(3) that(4), of post] that(1)
    by (simp add: getLocationName_try_walk)
  then show ?thesis
    by (auto simp: getLocationName_def)
qed

theorem getLocationName_absorbs_errors_witness:
  "key_list 0 3 5 0 0 0 0 0
     = [(Location, 0)] @ (Mk_cat, 3)
         # [(Md_cat, 5), (Muas_cat, 0), (Nrt_cat, 0), (Field_cat, 0), (Medical_cat, 0),
            (Service_cat, 0)]
   \<and> list_all (misses (execute unreachable_pool)) [(Location, 0)]
   \<and> select_label (execute unreachable_pool) Mk_cat 3 = Rejected ''connect ECONNREFUSED''
   \<and> getLocationName_try (execute unreachable_pool) 0 3 5 0 0 0 0 0
       = Inl ''connect ECONNREFUSED''
   \<and> getLocationName unreachable_pool 0 3 5 0 0 0 0 0 = ''Unknown''
   \<and> getLocationName_try (execute (mysql_pool sample_db)) 3 0 0 0 0 0 0 0 = Inr ''Lagos Hub''
   \<and> getLocationName (mysql_pool sample_db) 3 0 0 0 0 0 0 0 = ''Lagos Hub''"
proof -
  have k: "key_list 0 3 5 0 0 0 0 0
     = [(Location, 0)] @ (Mk_cat, 3)
         # [(Md_cat, 5), (Muas_cat, 0), (Nrt_cat, 0), (Field_cat, 0), (Medical_cat, 0),
            (Service_cat, 0)]"
    by (simp add: key_list_def)
  have m: "list_all (misses (execute unreachable_pool)) [(Location, 0)]"
    by (simp add: misses_def)
  have r: "select_label (execute unreachable_pool) Mk_cat 3 = Rejected ''connect ECONNREFUSED''"
    by (simp add: unreachable_pool_def unreachable_def)
  have pos: "(0::int) < 3" by simp
  from getLocationName_absorbs_errors [of unreachable_pool 0 3 5 0 0 0 0 0 _ _
      "[(Location, 0)]" Mk_cat 3
      "[(Md_cat, 5), (Muas_cat, 0), (Nrt_cat, 0), (Field_cat, 0), (Medical_cat, 0),
        (Service_cat, 0)]" "''connect ECONNREFUSED''"] k m r pos
  have v: "getLocationName_try (execute unreachable_pool) 0 3 5 0 0 0 0 0
             = Inl ''connect ECONNREFUSED''
           \<and> getLocationName unreachable_pool 0 3 5 0 0 0 0 0 = ''Unknown''"
    by blast
  have t: "getLocationName_try (execute (mysql_pool sample_db)) 3 0 0 0 0 0 0 0
             = Inr ''Lagos Hub''"
    by (simp add: getLocationName_try_def check_key_def sample_simps)
  with getLocationName_absorbs_errors [of "mysql_pool sample_db" 3 0 0 0 0 0 0 0 _
      "''Lagos Hub''"]
  have "getLocationName (mysql_pool sample_db) 3 0 0 0 0 0 0 0 = ''Lagos Hub''"
    by blast
  with k m r v t show ?thesis by blast
qed

text \<open>
  Claim C8 as stated fails: without a \<open>location\<close> table the lookup of \<open>location_id = 3\<close>
  is rejected; the claim lets resolution fall through to \<open>mk = 5\<close>, whose table has the
  row (\<open>resolve_spec\<close> gives its label), and \<open>getLocationName\<close> returns \<open>Unknown\<close>.
\<close>

theorem getLocationName_fall_through_counterexample:
  "select_label (execute (mysql_pool no_location_db)) Location 3 = Rejected no_such_table
   \<and> select_label (execute (mysql_pool no_location_db)) Mk_cat 5 = Rows [''Makkah Office'']
   \<and> resolve_spec (execute (mysql_pool no_location_db)) (key_list 3 5 0 0 0 0 0 0)
       = ''Makkah Office''
   \<and> getLocationName (mysql_pool no_location_db) 3 5 0 0 0 0 0 0 = ''Unknown''
   \<and> getLocationName (mysql_pool no_location_db) 3 5 0 0 0 0 0 0
       \<noteq> resolve_spec (execute (mysql_pool no_location_db)) (key_list 3 5 0 0 0 0 0 0)"
  by (simp add: resolver_simps resolve_spec_def key_list_def sample_simps)

section \<open>The statements on a store, and the sample store\<close>

lemma mysql_pool_sel:
  "execute (mysql_pool db) = mysql db" "query (mysql_pool db) = mysql db"
  by (simp_all add: mysql_pool_def)

lemma mysql_sel:
  "select_contacts (mysql db) cs lim off =
     (if reads_location cs \<and> label_rows db Location = None then Rejected no_such_table
      else (case (lim, off) of
              (Num l, Num n) \<Rightarrow>
                if 0 \<le> l \<and> 0 \<le> n
                then Rows (take (nat l) (drop (nat n) (matching db cs)))
                else Rejected ''ER_PARSE_ERROR''
            | _ \<Rightarrow> Rejected ''ER_PARSE_ERROR''))"
  "count_contacts (mysql db) cs =
     (if reads_location cs \<and> label_rows db Location = None then Rejected no_such_table
      else Rows [int (length (matching db cs))])"
  "select_contact (mysql db) i =
     (case (case i of PNum n \<Rightarrow> Some n | PStr s \<Rightarrow> id_of_string db s) of
        None \<Rightarrow> Rows []
      | Some n \<Rightarrow> Rows (filter (\<lambda>row. record_id (pr row) = n) (joined db)))"
  "select_label (mysql db) t k =
     (case label_rows db t of
        None \<Rightarrow> Rejected no_such_table
      | Some rs \<Rightarrow> Rows (map snd (filter (\<lambda>r. fst r = k) rs)))"
  "select_column (mysql db) t =
     (case label_rows db t of
        None \<Rightarrow> Rejected no_such_table
      | Some rs \<Rightarrow> Rows (map snd rs))"
  by (simp_all add: mysql_def)

lemmas engine_simps = mysql_pool_sel mysql_sel

lemma joined_sample:
  "joined sample_db = [\<lparr> pr = john, province = Some ''Lagos'', state_name = Some ''Lagos State'' \<rparr>]"
  by (simp add: joined_def sample_db_def lookup_name_def john_def)

lemma toContact_john:
  "toContact (mysql_pool sample_db)
     \<lparr> pr = john, province = Some ''Lagos'', state_name = Some ''Lagos State'' \<rparr> = john_contact"
  by (simp add: toContact_def john_def john_contact_def resolver_simps sample_simps or_zero_def
        or_empty_def or_else_def truthy_def trim_def is_space_def toString_def
        formatWhatsAppNumber_def startsWith_def substring_def is_digit_def Let_def)

lemmas param_simps = no_params_def effective_limit_def effective_offset_def truthy_def
  or_empty_def parseInt_def parseInt_default_def default_to_def is_space_def is_digit_def
  digit_value_def startsWith_def hex_value_def Math_max_def Math_min_def isNaN_def Let_def

lemmas filter_simps = query_filters_def count_filters_def alt_query_filters_def
  alt_count_filters_def part000_query_filters_def part000_count_filters_def add_filter_def
  add_filter_untrimmed_def wrap_def trim_def reads_location_def

lemma matching_sample_nil: "matching sample_db [] = joined sample_db"
  by (simp add: matching_def)

lemma label_rows_sample: "label_rows sample_db Location = Some [(3, ''Lagos Hub'')]"
  by (simp add: sample_db_def sample_labels_def)

lemma record_id_john: "record_id john = 7"
  by (simp add: john_def)

lemma label_rows_no_md:
  "label_rows no_md_db t = (if t = Md_cat then None else sample_labels t)"
  by (simp add: no_md_db_def sample_db_def)

section \<open>Properties of the list handlers\<close>

text \<open>
  The specification's end-to-end scenario, through \<open>GET /api/contacts\<close> of
  \<open>src/server.ts\<close> with no parameter.
\<close>

lemma contacts_handler_sample:
  "contacts_handler False (mysql_pool sample_db) no_params
     = \<lparr> status = 200, body = ContactsBody [john_contact]
           \<lparr> pg_total = 1, pg_limit = Num 50, pg_offset = Num 0, pg_hasMore = False \<rparr> \<rparr>"
  by (simp add: contacts_handler_def count_and_respond_def param_simps filter_simps
        engine_simps matching_sample_nil joined_sample toContact_john)

lemma count_filters_same: "count_filters req = query_filters req"
  by (simp add: count_filters_def query_filters_def)

lemma effective_limit_cases:
  "effective_limit x = NaN \<or> (\<exists>l. effective_limit x = Num l \<and> 1 \<le> l \<and> l \<le> 1000)"
  by (cases "parseInt (or_empty x)") (auto simp: effective_limit_def Math_max_def Math_min_def)

lemma effective_offset_cases:
  "effective_offset x = NaN \<or> (\<exists>n. effective_offset x = Num n \<and> 0 \<le> n)"
  by (cases "parseInt (or_empty x)") (auto simp: effective_offset_def Math_max_def)

text \<open>
  Claim C10. With the same parameters and the same store, and \<open>pool.query\<close> returning
  what \<open>pool.execute\<close> returns for the page statement and for the count statement,
  \<open>GET /api/contacts-alt\<close> and \<open>GET /api/contacts\<close> of \<open>src/server.ts\<close> give the same
  response: the same status and the same body.
\<close>

theorem contacts_alt_handler_same:
  "select_contacts (query p) = select_contacts (execute p)
   \<and> count_contacts (query p) = count_contacts (execute p)
   \<longrightarrow> contacts_alt_handler dev p req = contacts_handler dev p req"
proof
  assume "select_contacts (query p) = select_contacts (execute p)
          \<and> count_contacts (query p) = count_contacts (execute p)"
  then have sel: "select_contacts (query p) = select_contacts (execute p)"
    and cnt: "count_contacts (query p) = count_contacts (execute p)"
    by simp_all
  have q: "alt_query_filters req = query_filters req"
    by (simp add: alt_query_filters_def query_filters_def)
  have c: "alt_count_filters req = count_filters req"
    by (simp add: alt_count_filters_def count_filters_def)
  show "contacts_alt_handler dev p req = contacts_handler dev p req"
    unfolding contacts_alt_handler_def contacts_handler_def effective_limit_def
      effective_offset_def sel cnt q c ..
qed

theorem contacts_alt_handler_same_witness:
  "select_contacts (query (mysql_pool sample_db)) = select_contacts (execute (mysql_pool sample_db))
   \<and> count_contacts (query (mysql_pool sample_db)) = count_contacts (execute (mysql_pool sample_db))
   \<and> contacts_alt_handler False (mysql_pool sample_db) no_params
       = contacts_handler False (mysql_pool sample_db) no_params
   \<and> contacts_alt_handler False (mysql_pool sample_db) no_params
       = \<lparr> status = 200, body = ContactsBody [john_contact]
             \<lparr> pg_total = 1, pg_limit = Num 50, pg_offset = Num 0, pg_hasMore = False \<rparr> \<rparr>"
proof -
  have same: "select_contacts (query (mysql_pool sample_db))
                = select_contacts (execute (mysql_pool sample_db))
              \<and> count_contacts (query (mysql_pool sample_db))
                = count_contacts (execute (mysql_pool sample_db))"
    by (simp add: mysql_pool_sel)
  with contacts_alt_handler_same [of "mysql_pool sample_db" False no_params]
  have eq: "contacts_alt_handler False (mysql_pool sample_db) no_params
              = contacts_handler False (mysql_pool sample_db) no_params"
    by blast
  with same contacts_handler_sample show ?thesis by simp
qed

text \<open>
  The pagination of \<open>GET /api/contacts\<close> of \<open>src/server.ts\<close> on a store: the limit is in
  \<open>[1, 1000]\<close>, the page is not longer than the limit, the offset is not negative,
  \<open>hasMore\<close> compares offset plus page length with the reported total, and on a
  non-empty page the reported total is the number of rows that pass the conjuncts.
\<close>

lemma contacts_handler_pagination:
  assumes "contacts_handler dev (mysql_pool db) req = \<lparr> status = st, body = ContactsBody cs pg \<rparr>"
  shows "\<exists>l n. pg_limit pg = Num l \<and> 1 \<le> l \<and> l \<le> 1000 \<and> int (length cs) \<le> l
           \<and> pg_offset pg = Num n \<and> 0 \<le> n
           \<and> (pg_hasMore pg \<longleftrightarrow> n + int (length cs) < pg_total pg)
           \<and> (cs \<noteq> [] \<longrightarrow> pg_total pg = int (length (matching db (query_filters req))))"
proof -
  from effective_limit_cases [of "q_limit req"] effective_offset_cases [of "q_offset req"] assms
  obtain l n where l: "effective_limit (q_limit req) = Num l" "1 \<le> l" "l \<le> 1000"
    and n: "effective_offset (q_offset req) = Num n" "0 \<le> n"
    by (auto simp: contacts_handler_def isNaN_def)
  show ?thesis
    using assms l n
    by (auto simp: contacts_handler_def isNaN_def engine_simps count_and_respond_def
          internal_error_def count_filters_same Let_def
          split: if_splits)
qed

lemma contacts_handler_hasMore:
  assumes "contacts_handler dev (mysql_pool db) req = \<lparr> status = st, body = ContactsBody cs pg \<rparr>"
  shows "\<exists>n. pg_offset pg = Num n
           \<and> (pg_hasMore pg \<longleftrightarrow>
                n + int (length cs) < int (length (matching db (query_filters req))))"
proof -
  from effective_limit_cases [of "q_limit req"] effective_offset_cases [of "q_offset req"] assms
  obtain l n where l: "effective_limit (q_limit req) = Num l" "1 \<le> l" "l \<le> 1000"
    and n: "effective_offset (q_offset req) = Num n" "0 \<le> n"
    by (auto simp: contacts_handler_def isNaN_def)
  show ?thesis
    using assms l n
    by (auto simp: contacts_handler_def isNaN_def engine_simps count_and_respond_def
          internal_error_def count_filters_same Let_def
          split: if_splits)
qed

lemma contacts_past_end:
  "contacts_handler False (mysql_pool sample_db) (no_params \<lparr> q_offset := Some ''1'' \<rparr>)
     = \<lparr> status = 200, body = ContactsBody []
           \<lparr> pg_total = 0, pg_limit = Num 50, pg_offset = Num 1, pg_hasMore = False \<rparr> \<rparr>"
  by (simp add: contacts_handler_def count_and_respond_def param_simps filter_simps
        engine_simps matching_sample_nil joined_sample)

lemma count_past_end:
  "count_contacts (execute (mysql_pool sample_db))
     (count_filters (no_params \<lparr> q_offset := Some ''1'' \<rparr>)) = Rows [1]"
  by (simp add: param_simps filter_simps
        engine_simps matching_sample_nil joined_sample)

lemma part000_past_end:
  "part000_contacts_handler False (mysql_pool sample_db) (no_params \<lparr> q_offset := Some ''1'' \<rparr>)
     = \<lparr> status = 200, body = ContactsBody []
           \<lparr> pg_total = 1, pg_limit = Num 50, pg_offset = Num 1, pg_hasMore = False \<rparr> \<rparr>"
  by (simp add: part000_contacts_handler_def count_and_respond_def param_simps filter_simps
        engine_simps matching_sample_nil joined_sample)

lemma part000_contacts_handler_total:
  assumes "part000_contacts_handler dev (mysql_pool db) req
             = \<lparr> status = st, body = ContactsBody cs pg \<rparr>"
  shows "pg_total pg = int (length (matching db (part000_count_filters req)))"
  using assms
  by (auto simp: part000_contacts_handler_def engine_simps count_and_respond_def
        internal_error_def Let_def reads_location_def
        split: if_splits number.splits query_result.splits)

text \<open>
  Claim C1, at the input where \<open>src/server.ts\<close> departs from it. The store holds one
  record and the request asks for \<open>offset=1\<close> with no filter: one row matches, the page is
  empty, and the handler returns at \<open>if (rows.length === 0)\<close> with \<open>total: 0\<close>, without
  the count statement (which would give 1). The handler of \<open>src/unnamed/part_000\<close>, which
  has no such return, reports \<open>total: 1\<close> for the same request.
\<close>

theorem contacts_handler_empty_page_total:
  "contacts_handler False (mysql_pool sample_db) (no_params \<lparr> q_offset := Some ''1'' \<rparr>)
     = \<lparr> status = 200, body = ContactsBody []
           \<lparr> pg_total = 0, pg_limit = Num 50, pg_offset = Num 1, pg_hasMore = False \<rparr> \<rparr>
   \<and> length (matching sample_db (query_filters (no_params \<lparr> q_offset := Some ''1'' \<rparr>))) = 1
   \<and> count_contacts (execute (mysql_pool sample_db))
         (count_filters (no_params \<lparr> q_offset := Some ''1'' \<rparr>)) = Rows [1]
   \<and> part000_contacts_handler False (mysql_pool sample_db)
         (no_params \<lparr> q_offset := Some ''1'' \<rparr>)
       = \<lparr> status = 200, body = ContactsBody []
             \<lparr> pg_total = 1, pg_limit = Num 50, pg_offset = Num 1, pg_hasMore = False \<rparr> \<rparr>"
proof -
  have "length (matching sample_db (query_filters (no_params \<lparr> q_offset := Some ''1'' \<rparr>))) = 1"
    by (simp add: param_simps filter_simps matching_sample_nil joined_sample)
  with contacts_past_end count_past_end part000_past_end show ?thesis by simp
qed

subsection \<open>Limit and offset\<close>

lemma effective_limit_absent: "effective_limit None = Num 50" "effective_limit (Some []) = Num 50"
  by (simp_all add: effective_limit_def truthy_def)

lemma effective_offset_absent: "effective_offset None = Num 0" "effective_offset (Some []) = Num 0"
  by (simp_all add: effective_offset_def truthy_def)

lemma effective_limit_numeric:
  "s \<noteq> [] \<Longrightarrow> parseInt s = Num v \<Longrightarrow> effective_limit (Some s) = Num (max 1 (min 1000 v))"
  by (simp add: effective_limit_def truthy_def or_empty_def Math_max_def Math_min_def)

lemma effective_offset_numeric:
  "s \<noteq> [] \<Longrightarrow> parseInt s = Num v \<Longrightarrow> effective_offset (Some s) = Num (max 0 v)"
  by (simp add: effective_offset_def truthy_def or_empty_def Math_max_def)

lemma contacts_handler_rejects_NaN:
  "isNaN (effective_limit (q_limit req)) \<or> isNaN (effective_offset (q_offset req)) \<Longrightarrow>
   contacts_handler dev p req
     = \<lparr> status = 400, body = FailBody ''Invalid limit or offset parameters'' None \<rparr>
   \<and> contacts_alt_handler dev p req
     = \<lparr> status = 400, body = FailBody ''Invalid limit or offset parameters'' None \<rparr>"
  by (simp add: contacts_handler_def contacts_alt_handler_def effective_limit_def
        effective_offset_def Let_def)

lemma contacts_handler_clamps:
  "status (contacts_handler dev p req) \<noteq> 400 \<Longrightarrow>
   \<exists>l n. effective_limit (q_limit req) = Num l \<and> 1 \<le> l \<and> l \<le> 1000
        \<and> effective_offset (q_offset req) = Num n \<and> 0 \<le> n"
  using effective_limit_cases [of "q_limit req"] effective_offset_cases [of "q_offset req"]
  by (auto simp: contacts_handler_def isNaN_def Let_def)

lemma part000_contacts_handler_never_4xx:
  "\<not> is_4xx (status (part000_contacts_handler dev p req))"
  by (auto simp: part000_contacts_handler_def count_and_respond_def internal_error_def
        is_4xx_def Let_def split: query_result.splits list.splits)

lemma part000_limit0:
  "part000_contacts_handler False (mysql_pool sample_db) (no_params \<lparr> q_limit := Some ''0'' \<rparr>)
     = \<lparr> status = 200, body = ContactsBody []
           \<lparr> pg_total = 1, pg_limit = Num 0, pg_offset = Num 0, pg_hasMore = True \<rparr> \<rparr>"
  by (simp add: part000_contacts_handler_def count_and_respond_def param_simps filter_simps
        engine_simps matching_sample_nil joined_sample)

lemma contacts_handler_limit0:
  "contacts_handler False (mysql_pool sample_db) (no_params \<lparr> q_limit := Some ''0'' \<rparr>)
     = \<lparr> status = 200, body = ContactsBody [john_contact]
           \<lparr> pg_total = 1, pg_limit = Num 1, pg_offset = Num 0, pg_hasMore = False \<rparr> \<rparr>"
  by (simp add: contacts_handler_def count_and_respond_def param_simps filter_simps
        engine_simps matching_sample_nil joined_sample toContact_john)

lemma part000_limit_neg:
  "part000_contacts_handler False (mysql_pool sample_db) (no_params \<lparr> q_limit := Some ''-5'' \<rparr>)
     = \<lparr> status = 500, body = FailBody ''Internal server error'' None \<rparr>"
  by (simp add: part000_contacts_handler_def count_and_respond_def param_simps filter_simps
        engine_simps matching_sample_nil joined_sample internal_error_def)

lemma part000_limit_abc:
  "part000_contacts_handler False (mysql_pool sample_db) (no_params \<lparr> q_limit := Some ''abc'' \<rparr>)
     = \<lparr> status = 500, body = FailBody ''Internal server error'' None \<rparr>"
  by (simp add: part000_contacts_handler_def count_and_respond_def param_simps filter_simps
        engine_simps matching_sample_nil joined_sample internal_error_def)

text \<open>
  Claim C5, at the inputs where \<open>src/unnamed/part_000\<close> departs from it. Its list handler
  binds \<open>parseInt(limit)\<close> to \<open>LIMIT ?\<close> as it is: \<open>limit=0\<close> runs with \<open>LIMIT 0\<close> and is
  answered with status 200 and \<open>limit: 0\<close>; \<open>limit=-5\<close> and \<open>limit=abc\<close> are rejected by the
  store and answered with status 500, not with a 4xx. The handlers of \<open>src/server.ts\<close>
  clamp \<open>limit=0\<close> to 1.
\<close>

theorem part000_contacts_handler_limit_unclamped:
  "part000_contacts_handler False (mysql_pool sample_db) (no_params \<lparr> q_limit := Some ''0'' \<rparr>)
     = \<lparr> status = 200, body = ContactsBody []
           \<lparr> pg_total = 1, pg_limit = Num 0, pg_offset = Num 0, pg_hasMore = True \<rparr> \<rparr>
   \<and> part000_contacts_handler False (mysql_pool sample_db)
         (no_params \<lparr> q_limit := Some ''-5'' \<rparr>)
       = \<lparr> status = 500, body = FailBody ''Internal server error'' None \<rparr>
   \<and> part000_contacts_handler False (mysql_pool sample_db)
         (no_params \<lparr> q_limit := Some ''abc'' \<rparr>)
       = \<lparr> status = 500, body = FailBody ''Internal server error'' None \<rparr>
   \<and> contacts_handler False (mysql_pool sample_db) (no_params \<lparr> q_limit := Some ''0'' \<rparr>)
       = \<lparr> status = 200, body = ContactsBody [john_contact]
             \<lparr> pg_total = 1, pg_limit = Num 1, pg_offset = Num 0, pg_hasMore = False \<rparr> \<rparr>"
  using part000_limit0 part000_limit_neg part000_limit_abc contacts_handler_limit0 by simp

subsection \<open>The location filter\<close>

lemma trim_nonempty: "trim s \<noteq> [] \<Longrightarrow> s \<noteq> []"
  by (cases s) (simp_all add: trim_def)

lemma add_filter_some:
  "trim s \<noteq> [] \<Longrightarrow> add_filter (Some s) mk q = q @ [mk (wrap (trim s))]"
  using trim_nonempty [of s] by (simp add: add_filter_def truthy_def or_empty_def)

lemma query_filters_location:
  assumes "q_location req = Some loc" and "trim loc \<noteq> []"
  shows "LocationIs (wrap (trim loc)) \<in> set (query_filters req)
         \<and> LocationIs (wrap (trim loc)) \<in> set (count_filters req)"
  unfolding query_filters_def count_filters_def assms(1) add_filter_some [OF assms(2)]
  by simp

lemma matching_location:
  "LocationIs pat \<in> set cs \<Longrightarrow> row \<in> set (matching db cs) \<Longrightarrow>
   \<exists>i. location_subquery db pat = Some i \<and> location_id (pr row) = Some i"
  by (auto simp: matching_def list_all_iff split: option.splits)

lemma matching_location_none:
  assumes "LocationIs pat \<in> set cs" and "location_subquery db pat = None"
  shows "matching db cs = []"
proof (cases "matching db cs")
  case Nil
  then show ?thesis .
next
  case (Cons row rows)
  then have "row \<in> set (matching db cs)" by simp
  from matching_location [OF assms(1) this] assms(2) show ?thesis by simp
qed

lemma find_first:
  "find P rs = Some x \<Longrightarrow>
   \<exists>pre post. rs = pre @ x # post \<and> P x \<and> list_all (\<lambda>r. \<not> P r) pre"
proof (induction rs)
  case Nil
  then show ?case by simp
next
  case (Cons a rs)
  show ?case
  proof (cases "P a")
    case True
    with Cons.prems have "a = x" by simp
    with True have "a # rs = [] @ x # rs \<and> P x \<and> list_all (\<lambda>r. \<not> P r) []" by simp
    then show ?thesis by blast
  next
    case False
    with Cons.prems have "find P rs = Some x" by simp
    from Cons.IH [OF this] obtain pre post
      where "rs = pre @ x # post" "P x" "list_all (\<lambda>r. \<not> P r) pre" by blast
    with False have "a # rs = (a # pre) @ x # post \<and> P x \<and> list_all (\<lambda>r. \<not> P r) (a # pre)"
      by simp
    then show ?thesis by blast
  qed
qed

lemma location_subquery_first:
  assumes "label_rows db Location = Some rs" and "location_subquery db pat = Some i"
  shows "\<exists>pre l post. rs = pre @ (i, l) # post \<and> like db pat l
           \<and> list_all (\<lambda>r. \<not> like db pat (snd r)) pre"
proof -
  from assms obtain l where "find (\<lambda>r. like db pat (snd r)) rs = Some (i, l)"
    by (auto simp: location_subquery_def)
  from find_first [OF this] show ?thesis by auto
qed

lemma contacts_handler_no_location_match:
  assumes "q_location req = Some loc" and "trim loc \<noteq> []"
    and "label_rows db Location = Some rs"
    and "location_subquery db (wrap (trim loc)) = None"
    and "status (contacts_handler dev (mysql_pool db) req) \<noteq> 400"
  shows "\<exists>pg. contacts_handler dev (mysql_pool db) req
               = \<lparr> status = 200, body = ContactsBody [] pg \<rparr> \<and> pg_total pg = 0"
proof -
  from contacts_handler_clamps [OF assms(5)]
  obtain l n where l: "effective_limit (q_limit req) = Num l" "1 \<le> l"
    and n: "effective_offset (q_offset req) = Num n" "0 \<le> n" by blast
  from query_filters_location [OF assms(1,2)] assms(4)
  have "matching db (query_filters req) = []"
    by (blast intro: matching_location_none)
  with l n assms(3) show ?thesis
    by (simp add: contacts_handler_def isNaN_def engine_simps Let_def)
qed

lemma subquery_abuja: "location_subquery sample_db ''%Abuja%'' = None"
  by (simp add: location_subquery_def sample_db_def sample_labels_def)

lemma part000_abuja:
  "part000_contacts_handler False (mysql_pool sample_db)
     (no_params \<lparr> q_location := Some ''Abuja'' \<rparr>)
     = \<lparr> status = 200, body = ContactsBody [john_contact]
           \<lparr> pg_total = 1, pg_limit = Num 50, pg_offset = Num 0, pg_hasMore = False \<rparr> \<rparr>"
  by (simp add: part000_contacts_handler_def count_and_respond_def param_simps filter_simps
        engine_simps matching_sample_nil joined_sample toContact_john)

lemma contacts_handler_abuja:
  "contacts_handler False (mysql_pool sample_db) (no_params \<lparr> q_location := Some ''Abuja'' \<rparr>)
     = \<lparr> status = 200, body = ContactsBody []
           \<lparr> pg_total = 0, pg_limit = Num 50, pg_offset = Num 0, pg_hasMore = False \<rparr> \<rparr>"
  by (simp add: contacts_handler_def count_and_respond_def param_simps filter_simps
        engine_simps matching_def joined_sample subquery_abuja label_rows_sample)

text \<open>
  Claim C6, at the input where \<open>src/unnamed/part_000\<close> departs from it. Its list handler
  reads \<open>location\<close> from the query and never uses it: with \<open>location=Abuja\<close>, which no
  row of the \<open>location\<close> table matches, it returns the stored record and \<open>total: 1\<close>, as
  if there were no filter. The handler of \<open>src/server.ts\<close> returns no row.
\<close>

theorem part000_contacts_handler_ignores_location:
  "location_subquery sample_db (wrap (trim ''Abuja'')) = None
   \<and> part000_query_filters (no_params \<lparr> q_location := Some ''Abuja'' \<rparr>) = []
   \<and> part000_contacts_handler False (mysql_pool sample_db)
         (no_params \<lparr> q_location := Some ''Abuja'' \<rparr>)
       = \<lparr> status = 200, body = ContactsBody [john_contact]
             \<lparr> pg_total = 1, pg_limit = Num 50, pg_offset = Num 0, pg_hasMore = False \<rparr> \<rparr>
   \<and> contacts_handler False (mysql_pool sample_db) (no_params \<lparr> q_location := Some ''Abuja'' \<rparr>)
       = \<lparr> status = 200, body = ContactsBody []
             \<lparr> pg_total = 0, pg_limit = Num 50, pg_offset = Num 0, pg_hasMore = False \<rparr> \<rparr>"
proof -
  have "location_subquery sample_db (wrap (trim ''Abuja'')) = None"
    using subquery_abuja by (simp add: wrap_def trim_def is_space_def)
  moreover have "part000_query_filters (no_params \<lparr> q_location := Some ''Abuja'' \<rparr>) = []"
    by (simp add: param_simps filter_simps)
  ultimately show ?thesis
    using part000_abuja contacts_handler_abuja by simp
qed

section \<open>Properties of the handlers of one contact\<close>

lemma contact_handler_NaN:
  "parseInt ident = NaN \<Longrightarrow>
   contact_handler p ident = \<lparr> status = 400, body = FailBody ''Invalid contact ID'' None \<rparr>"
  by (simp add: contact_handler_def)

lemma contact_handler_not_found:
  "parseInt ident = Num n \<Longrightarrow> list_all (\<lambda>r. record_id r \<noteq> n) (phone_records db) \<Longrightarrow>
   contact_handler (mysql_pool db) ident
     = \<lparr> status = 404, body = FailBody ''Contact not found'' None \<rparr>"
  by (simp add: contact_handler_def engine_simps joined_def filter_empty_conv list_all_iff)

lemma contact_handler_found:
  "parseInt ident = Num n \<Longrightarrow>
   filter (\<lambda>row. record_id (pr row) = n) (joined db) = row # others \<Longrightarrow>
   contact_handler (mysql_pool db) ident
     = \<lparr> status = 200, body = ContactBody (toContact (mysql_pool db) row) \<rparr>"
  by (simp add: contact_handler_def engine_simps)

lemma contact_handler_sample:
  "contact_handler (mysql_pool sample_db) ''7''
     = \<lparr> status = 200, body = ContactBody john_contact \<rparr>"
  "contact_handler (mysql_pool sample_db) ''8''
     = \<lparr> status = 404, body = FailBody ''Contact not found'' None \<rparr>"
  by (simp_all add: contact_handler_def param_simps engine_simps joined_sample toContact_john
        record_id_john)

lemma part000_contact_handler_rejected:
  "select_contact (execute p) (PStr ident) = Rejected e \<Longrightarrow>
   part000_contact_handler p ident
     = \<lparr> status = 500, body = FailBody ''Internal server error'' None \<rparr>"
  by (simp add: part000_contact_handler_def)

lemma part000_contact_handler_never_400:
  "status (part000_contact_handler p ident) \<noteq> 400"
  by (auto simp: part000_contact_handler_def split: query_result.splits list.splits)

text \<open>
  Claim C7, at the input where \<open>src/unnamed/part_000\<close> departs from it. Its handler does
  not check the id: the non-numeric \<open>abc\<close> goes to the store, and when the store cannot
  be reached the answer is a 500. The handler of \<open>src/server.ts\<close> answers 400 before it
  touches the store.
\<close>

theorem part000_contact_handler_unchecked_id:
  "parseInt ''abc'' = NaN
   \<and> part000_contact_handler unreachable_pool ''abc''
       = \<lparr> status = 500, body = FailBody ''Internal server error'' None \<rparr>
   \<and> is_5xx (status (part000_contact_handler unreachable_pool ''abc''))
   \<and> \<not> is_4xx (status (part000_contact_handler unreachable_pool ''abc''))
   \<and> contact_handler unreachable_pool ''abc''
       = \<lparr> status = 400, body = FailBody ''Invalid contact ID'' None \<rparr>"
  by (simp add: part000_contact_handler_def contact_handler_def unreachable_pool_def
        unreachable_def param_simps is_5xx_def is_4xx_def)

section \<open>Properties of the locations listing\<close>

lemma add_labels_set: "set (add_labels locs rows) = set locs \<union> {v \<in> set rows. v \<noteq> []}"
  unfolding add_labels_def
  by (induction rows arbitrary: locs) auto

lemma collect_locations_warned:
  "snd (collect_locations d ts (locs, w))
     = w @ filter (\<lambda>t. case select_column d t of Rejected e \<Rightarrow> True | _ \<Rightarrow> False) ts"
  by (induction ts arbitrary: locs w) (auto split: query_result.splits)

lemma collect_locations_labels:
  "set (fst (collect_locations d ts (locs, w)))
     = set locs \<union> {v. v \<noteq> [] \<and> (\<exists>t \<in> set ts. \<exists>rows. select_column d t = Rows rows \<and> v \<in> set rows)}"
proof (induction ts arbitrary: locs w)
  case Nil
  then show ?case by simp
next
  case (Cons t ts)
  show ?case
  proof (cases "select_column d t")
    case (Rejected e)
    with Cons.IH [of locs "w @ [t]"] show ?thesis by auto
  next
    case NotArray
    with Cons.IH [of locs w] show ?thesis by auto
  next
    case (Rows rows)
    with Cons.IH [of "add_labels locs rows" w] show ?thesis
      by (auto simp: add_labels_set)
  qed
qed

lemma locations_handler_succeeds:
  "status (fst (locations_handler p)) = 200"
  by (simp add: locations_handler_def split: prod.splits)

lemma locations_handler_labels:
  "locations_handler p = (res, warned) \<Longrightarrow>
   \<exists>locs. res = \<lparr> status = 200, body = LocationsBody (sort locs) \<rparr>
     \<and> set locs = {v. v \<noteq> [] \<and> (\<exists>t \<in> set tables. \<exists>rows.
                          select_column (execute p) t = Rows rows \<and> v \<in> set rows)}
     \<and> warned = filter (\<lambda>t. case select_column (execute p) t of Rejected e \<Rightarrow> True | _ \<Rightarrow> False) tables"
  using collect_locations_labels [of "execute p" tables "[]" "[]"]
    collect_locations_warned [of "execute p" tables "[]" "[]"]
  by (auto simp: locations_handler_def split: prod.splits)

lemma part000_collect_locations_rejected:
  "t \<in> set ts \<Longrightarrow> select_column d t = Rejected e \<Longrightarrow>
   \<exists>e'. part000_collect_locations d ts locs = Inl e'"
  by (induction ts arbitrary: locs) (auto split: query_result.splits)

lemma part000_locations_handler_rejected:
  assumes "t \<in> set tables" and "select_column (execute p) t = Rejected e"
  shows "part000_locations_handler p
           = \<lparr> status = 500, body = FailBody ''Internal server error'' None \<rparr>"
proof -
  from part000_collect_locations_rejected [OF assms, of "[]"]
  obtain e' where "part000_collect_locations (execute p) tables [] = Inl e'" by blast
  then show ?thesis by (simp add: part000_locations_handler_def)
qed

lemma locations_handler_no_md:
  "locations_handler (mysql_pool no_md_db)
     = (\<lparr> status = 200, body = LocationsBody [''Lagos Hub'', ''Makkah Office''] \<rparr>, [Md_cat])"
  by (simp add: locations_handler_def tables_def engine_simps label_rows_no_md sample_labels_def
        add_labels_def no_such_table_def)

lemma part000_locations_no_md:
  "part000_locations_handler (mysql_pool no_md_db)
     = \<lparr> status = 500, body = FailBody ''Internal server error'' None \<rparr>"
  by (simp add: part000_locations_handler_def tables_def engine_simps label_rows_no_md sample_labels_def
        add_labels_def no_such_table_def)

text \<open>
  Claim C9, at the input where \<open>src/unnamed/part_000\<close> departs from it. Without the
  \<open>md_cat_info\<close> table the read of that one table is rejected; the loop of
  \<open>src/unnamed/part_000\<close> has no \<open>try\<close> of its own, so the whole request is answered with
  a 500. The handler of \<open>src/server.ts\<close> warns about the table and answers 200 with the
  labels of the other tables.
\<close>

theorem part000_locations_handler_single_failure:
  "select_column (execute (mysql_pool no_md_db)) Md_cat = Rejected no_such_table
   \<and> part000_locations_handler (mysql_pool no_md_db)
       = \<lparr> status = 500, body = FailBody ''Internal server error'' None \<rparr>
   \<and> locations_handler (mysql_pool no_md_db)
       = (\<lparr> status = 200, body = LocationsBody [''Lagos Hub'', ''Makkah Office''] \<rparr>, [Md_cat])"
  using locations_handler_no_md part000_locations_no_md by (simp add: engine_simps label_rows_no_md)

end
